theory Spec2Isabelle
  imports Main
begin

section \<open>The TTS server of \<open>src/tts-server/server.py\<close>\<close>

text \<open>
  The handler class \<open>TTSHandler\<close> is embedded function by function. A byte string is a
  HOL string (a list of 8-bit characters), and a Python \<open>str\<close> is represented by the bytes
  of its UTF-8 encoding, a lone surrogate by the three bytes that the error handler
  \<open>surrogatepass\<close> gives it. What the handler calls in
  Python's standard library (\<open>json.loads\<close>, \<open>json.dumps\<close>, \<open>hashlib.md5\<close>, the text of
  \<open>repr\<close>) is a parameter of the model, collected in the record \<open>lib\<close>; the external
  command \<open>edge-tts\<close>, started by \<open>subprocess.run\<close>, is the parameter \<open>run\<close>.
\<close>

subsection \<open>Values\<close>

type_synonym bytes = string

text \<open>A Python float, as far as the handler looks at it: sign, significand, exponent.\<close>

datatype pyfloat = Finite bool nat int | Infinite bool | NaN

text \<open>
  What \<open>json.loads\<close> returns. An object is the list of the items of the resulting
  \<open>dict\<close>, in insertion order.
\<close>

datatype json =
    JNull
  | JBool bool
  | JInt int
  | JFloat pyfloat
  | JStr string
  | JArr "json list"
  | JObj "(string \<times> json) list"

text \<open>Python's truth value of such a value, as \<open>not text\<close> tests it.\<close>

fun truthy :: "json \<Rightarrow> bool" where
  "truthy JNull = False"
| "truthy (JBool b) = b"
| "truthy (JInt i) = (i \<noteq> 0)"
| "truthy (JFloat (Finite s m e)) = (m \<noteq> 0)"
| "truthy (JFloat (Infinite s)) = True"
| "truthy (JFloat NaN) = True"
| "truthy (JStr s) = (s \<noteq> [])"
| "truthy (JArr xs) = (xs \<noteq> [])"
| "truthy (JObj kvs) = (kvs \<noteq> [])"

text \<open>\<open>d.get(k, default)\<close> on a \<open>dict\<close>.\<close>

definition dict_get :: "(string \<times> json) list \<Rightarrow> string \<Rightarrow> json \<Rightarrow> json" where
  "dict_get kvs k dflt = (case map_of kvs k of None \<Rightarrow> dflt | Some v \<Rightarrow> v)"

text \<open>
  The outcome of \<open>json.loads(body)\<close>: a value, the exception \<open>json.JSONDecodeError\<close>, or
  another exception (\<open>UnicodeDecodeError\<close> on bytes that are not UTF-8, for one).
\<close>

datatype loads_result = Loaded json | JSONDecodeError | LoadsRaised

record lib =
  json_loads :: "bytes \<Rightarrow> loads_result"
  json_dumps :: "json \<Rightarrow> string"
  py_repr :: "json \<Rightarrow> string"
  md5_hexdigest :: "string \<Rightarrow> string"

text \<open>The module's globals \<open>VOICE\<close> and \<open>CACHE_DIR\<close>, read from the environment at start.\<close>

record config =
  VOICE :: string
  CACHE_DIR :: string

subsection \<open>The external command and the state\<close>

text \<open>
  How \<open>subprocess.run([...], capture_output=True, text=True, timeout=30)\<close> ends: the
  command exits with a return code and its standard error text; the timeout expires
  (the child is killed and \<open>TimeoutExpired\<close> is raised); no command is started, because
  an exception is raised before (\<open>FileNotFoundError\<close> when the command is not installed,
  \<open>ValueError\<close> for a NUL in an argument); or the command has run and another exception
  is raised afterwards (\<open>UnicodeDecodeError\<close> when its output does not decode). \<open>media\<close> is
  what a command that was started has left in the file named after \<open>--write-media\<close> by
  then: \<open>None\<close> when it has not created the file.
\<close>

datatype outcome = Returned int string | TimeoutExpired | NotStarted | Raised

record proc =
  outcome :: outcome
  media :: "bytes option"

text \<open>
  The state the handler works on: the files under their paths, and the argument
  vectors of the commands started so far.
\<close>

record state =
  files :: "string \<rightharpoonup> bytes"
  calls :: "string list list"

subsection \<open>Requests and responses\<close>

text \<open>
  The header \<open>Content-Length\<close> of a request: absent, a text that \<open>int\<close> accepts, or a
  text on which \<open>int\<close> raises \<open>ValueError\<close>.
\<close>

datatype clen = NoHeader | HeaderInt int | HeaderNotInt

text \<open>
  \<open>rfile\<close> holds the bytes that follow the headers, up to the end of the client's
  stream.
\<close>

record request =
  path :: string
  content_length :: clen
  rfile :: bytes

datatype exc =
    ValueError | AttributeError | TypeError | FileNotFoundError | UnicodeEncodeError
  | LibraryError

text \<open>
  What the client gets: a response written with \<open>send_response\<close>, \<open>send_header\<close> and
  \<open>wfile.write\<close> (status, the headers the handler sets, body); a response written by
  \<open>send_error(code, message)\<close>; or no response, when an exception leaves the handler.
\<close>

datatype response =
    Response nat "(string \<times> string) list" bytes
  | SendError nat "string option"
  | Unhandled exc

subsection \<open>Text and its encodings\<close>

text \<open>
  In UTF-8 the byte \<open>0xED\<close> followed by a byte from \<open>0xA0\<close> on begins a surrogate, and
  nothing else does.
\<close>

fun has_surrogate :: "string \<Rightarrow> bool" where
  "has_surrogate (a # b # s) =
     ((of_char a = (0xED :: nat) \<and> (0xA0 :: nat) \<le> of_char b) \<or> has_surrogate (b # s))"
| "has_surrogate s = False"

text \<open>
  \<open>s.encode()\<close>: the UTF-8 bytes of the text, which represent it here; \<open>None\<close> stands
  for \<open>UnicodeEncodeError\<close>, raised for a text with a surrogate.
\<close>

definition encode :: "string \<Rightarrow> bytes option" where
  "encode s = (if has_surrogate s then None else Some s)"

text \<open>
  A text can be encoded in Latin-1 when it has no character above \<open>U+00FF\<close>: when no byte
  of its UTF-8 encoding is \<open>0xC4\<close> or more, the first byte of every character from
  \<open>U+0100\<close> on.
\<close>

definition latin1_encodable :: "string \<Rightarrow> bool" where
  "latin1_encodable s = list_all (\<lambda>c. of_char c < (0xC4 :: nat)) s"

text \<open>
  \<open>send_error(code, message)\<close> of the base class. It puts the message into the status
  line, which \<open>send_response_only\<close> encodes in Latin-1 with the error handler \<open>strict\<close>
  before anything is written: a message that cannot be encoded raises
  \<open>UnicodeEncodeError\<close>. Without a message the status line has the standard phrase of the
  code.
\<close>

definition send_error :: "nat \<Rightarrow> string option \<Rightarrow> response" where
  "send_error code message =
     (case message of
        None \<Rightarrow> SendError code None
      | Some m \<Rightarrow>
          if latin1_encodable m then SendError code (Some m)
          else Unhandled UnicodeEncodeError)"

subsection \<open>Helpers from the standard library\<close>

text \<open>\<open>str(n)\<close> for a natural number: its decimal digits.\<close>

definition digit_char :: "nat \<Rightarrow> char" where
  "digit_char d = ''0123456789'' ! d"

function str_nat :: "nat \<Rightarrow> string" where
  "str_nat n = (if n < 10 then [digit_char n] else str_nat (n div 10) @ [digit_char (n mod 10)])"
  by pat_completeness auto
termination
  by (relation "measure id") auto

declare str_nat.simps [simp del]

text \<open>Reading decimal digits back, as a client does with the header.\<close>

definition digit_val :: "char \<Rightarrow> nat" where
  "digit_val c = of_char c - 48"

definition nat_of_str :: "string \<Rightarrow> nat" where
  "nat_of_str s = foldl (\<lambda>a c. 10 * a + digit_val c) 0 s"

text \<open>\<open>os.path.join(a, b)\<close> of \<open>posixpath\<close>.\<close>

definition path_join :: "string \<Rightarrow> string \<Rightarrow> string" where
  "path_join a b =
     (if b \<noteq> [] \<and> hd b = CHR ''/'' then b
      else if a = [] \<or> last a = CHR ''/'' then a @ b
      else a @ ''/'' @ b)"

text \<open>
  \<open>rfile.read(n)\<close> on the buffered reader of the connection: at most \<open>n\<close> bytes,
  everything up to the end of the stream for \<open>-1\<close>; \<open>None\<close> stands for the \<open>ValueError\<close>
  raised for a length below \<open>-1\<close>.
\<close>

definition rfile_read :: "bytes \<Rightarrow> int \<Rightarrow> bytes option" where
  "rfile_read s n = (if n < -1 then None else if n = -1 then Some s else Some (take (nat n) s))"

text \<open>\<open>int(self.headers.get("Content-Length", 0))\<close>; \<open>None\<close> stands for \<open>ValueError\<close>.\<close>

definition header_int :: "clen \<Rightarrow> int option" where
  "header_int h = (case h of NoHeader \<Rightarrow> Some 0 | HeaderInt n \<Rightarrow> Some n | HeaderNotInt \<Rightarrow> None)"

text \<open>
  A value inside an f-string: a string stands for itself, any other value of these
  types is formatted as its \<open>repr\<close>.
\<close>

definition format_value :: "lib \<Rightarrow> json \<Rightarrow> string" where
  "format_value L v = (case v of JStr s \<Rightarrow> s | _ \<Rightarrow> py_repr L v)"

subsection \<open>\<open>TTSHandler.do_POST\<close>\<close>

text \<open>
  Lines 45 and 46: the cache key and the path of the cache file, for a voice and a text
  whose joined text \<open>.encode()\<close> has encoded; \<open>speech\<close> below asks for that first.
\<close>

definition cache_key :: "lib \<Rightarrow> json \<Rightarrow> json \<Rightarrow> string" where
  "cache_key L voice text = md5_hexdigest L (format_value L voice @ '':'' @ format_value L text)"

definition cache_path :: "lib \<Rightarrow> config \<Rightarrow> json \<Rightarrow> json \<Rightarrow> string" where
  "cache_path L C voice text = path_join (CACHE_DIR C) (cache_key L voice text @ ''.mp3'')"

text \<open>Lines 62 to 70: open the cache file, read it and send it.\<close>

definition serve_audio :: "state \<Rightarrow> string \<Rightarrow> state \<times> response" where
  "serve_audio st p =
     (case files st p of
        None \<Rightarrow> (st, Unhandled FileNotFoundError)
      | Some audio_data \<Rightarrow>
          (st, Response 200
                 [(''Content-Type'', ''audio/mpeg''),
                  (''Content-Length'', str_nat (length audio_data))]
                 audio_data))"

text \<open>The argument vector of line 52.\<close>

definition edge_tts_argv :: "string \<Rightarrow> string \<Rightarrow> string \<Rightarrow> string list" where
  "edge_tts_argv voice text p =
     [''edge-tts'', ''--voice'', voice, ''--text'', text, ''--write-media'', p]"

text \<open>
  Lines 44 to 70. \<open>.encode()\<close> on line 45 raises before anything else is done.
  \<open>subprocess.run\<close> raises \<open>TypeError\<close> before it starts anything when an argument is not
  a string. The command writes into the cache file itself. When no command was started,
  nothing has changed.
\<close>

definition speech ::
  "lib \<Rightarrow> config \<Rightarrow> (string list \<Rightarrow> proc) \<Rightarrow> state \<Rightarrow> json \<Rightarrow> json \<Rightarrow> state \<times> response" where
  "speech L C run st voice text =
     (if encode (format_value L voice @ '':'' @ format_value L text) = None
      then (st, Unhandled UnicodeEncodeError)
      else
        let p = cache_path L C voice text in
        if files st p = None then
          (case (voice, text) of
             (JStr v, JStr t) \<Rightarrow>
               (let argv = edge_tts_argv v t p;
                    result = run argv;
                    st' = st\<lparr>files := (case media result of
                                           None \<Rightarrow> files st
                                         | Some b \<Rightarrow> (files st)(p \<mapsto> b)),
                             calls := calls st @ [argv]\<rparr>
                in case outcome result of
                     Returned returncode stderr \<Rightarrow>
                       if returncode \<noteq> 0
                       then (st', send_error 500 (Some (''TTS failed: '' @ stderr)))
                       else serve_audio st' p
                   | TimeoutExpired \<Rightarrow> (st', send_error 500 (Some ''TTS timeout''))
                   | NotStarted \<Rightarrow> (st, Unhandled LibraryError)
                   | Raised \<Rightarrow> (st', Unhandled LibraryError))
           | _ \<Rightarrow> (st, Unhandled TypeError))
        else serve_audio st p)"

text \<open>
  Lines 24 to 42: the handler either ends with a response (\<open>Inl\<close>) or goes on with
  \<open>voice\<close> and \<open>text\<close> (\<open>Inr\<close>). \<open>data.get\<close> raises \<open>AttributeError\<close> when \<open>data\<close> is
  not a \<open>dict\<close>.
\<close>

definition post_params :: "lib \<Rightarrow> config \<Rightarrow> request \<Rightarrow> response + (json \<times> json)" where
  "post_params L C req =
     (if path req \<noteq> ''/v1/audio/speech'' then Inl (send_error 404 None)
      else
        case header_int (content_length req) of
          None \<Rightarrow> Inl (Unhandled ValueError)
        | Some n \<Rightarrow>
            (case rfile_read (rfile req) n of
               None \<Rightarrow> Inl (Unhandled ValueError)
             | Some body \<Rightarrow>
                 (case json_loads L body of
                    JSONDecodeError \<Rightarrow> Inl (send_error 400 (Some ''Invalid JSON''))
                  | LoadsRaised \<Rightarrow> Inl (Unhandled LibraryError)
                  | Loaded data \<Rightarrow>
                      (case data of
                         JObj kvs \<Rightarrow>
                           (let text = dict_get kvs ''input'' (dict_get kvs ''text'' (JStr ''''));
                                voice = dict_get kvs ''voice'' (JStr (VOICE C))
                            in if \<not> truthy text
                               then Inl (send_error 400 (Some ''No text provided''))
                               else Inr (voice, text))
                       | _ \<Rightarrow> Inl (Unhandled AttributeError)))))"

text \<open>The whole of \<open>do_POST\<close>: lines 24 to 42, then lines 44 to 70.\<close>

definition do_POST ::
  "lib \<Rightarrow> config \<Rightarrow> (string list \<Rightarrow> proc) \<Rightarrow> state \<Rightarrow> request \<Rightarrow> state \<times> response" where
  "do_POST L C run st req =
     (case post_params L C req of
        Inl r \<Rightarrow> (st, r)
      | Inr (voice, text) \<Rightarrow> speech L C run st voice text)"

subsection \<open>\<open>TTSHandler.do_GET\<close>\<close>

text \<open>
  \<open>json.dumps\<close> escapes every character that is not ASCII, so that \<open>.encode()\<close> on line
  77 leaves its text as it is.
\<close>

definition do_GET :: "lib \<Rightarrow> config \<Rightarrow> state \<Rightarrow> request \<Rightarrow> state \<times> response" where
  "do_GET L C st req =
     (if path req = ''/health''
      then (st, Response 200 [(''Content-Type'', ''application/json'')]
                  (json_dumps L (JObj [(''status'', JStr ''ok''), (''voice'', JStr (VOICE C))])))
      else (st, send_error 404 None))"

subsection \<open>The server loop\<close>

text \<open>
  \<open>TTSHandler\<close> defines \<open>do_POST\<close> and \<open>do_GET\<close> only. Its base class
  \<open>BaseHTTPRequestHandler\<close> calls the method \<open>do_\<close> followed by the request's method name
  and answers 501 when the class has none. The base class has decoded the method name
  from Latin-1, so that the status line of this answer can always be encoded.
\<close>

definition handle ::
  "lib \<Rightarrow> config \<Rightarrow> (string list \<Rightarrow> proc) \<Rightarrow> state \<Rightarrow> string \<Rightarrow> request \<Rightarrow> state \<times> response" where
  "handle L C run st command req =
     (if command = ''POST'' then do_POST L C run st req
      else if command = ''GET'' then do_GET L C st req
      else (st, SendError 501
                  (Some (''Unsupported method ('' @ py_repr L (JStr command) @ '')''))))"

text \<open>
  \<open>main\<close> serves with \<open>HTTPServer\<close>, which handles one request after the other in a
  single thread: \<open>serve_forever\<close> on a list of requests, each with the behaviour of the
  external command at that time.
\<close>

type_synonym arrival = "(string list \<Rightarrow> proc) \<times> string \<times> request"

fun serve_forever :: "lib \<Rightarrow> config \<Rightarrow> state \<Rightarrow> arrival list \<Rightarrow> state \<times> response list" where
  "serve_forever L C st [] = (st, [])"
| "serve_forever L C st ((run, command, req) # rest) =
     (let (st1, r) = handle L C run st command req;
          (st2, rs) = serve_forever L C st1 rest
      in (st2, r # rs))"

subsection \<open>Concrete inputs for the examples\<close>

text \<open>
  The examples below run the handler on concrete requests. They use a stand-in for the
  library that agrees with Python on the few values the examples pass to it, and on
  these only: \<open>json.loads\<close> of six request bodies (any other body is taken as one that
  does not parse), \<open>json.dumps\<close> of the health report, \<open>repr\<close> of a method name. The digest
  is taken as the identity, which no collision can be blamed on.
\<close>

definition loads0 :: "bytes \<Rightarrow> loads_result" where
  \<open>loads0 b =
     (if b = ''{}'' then Loaded (JObj [])
      else if b = ''[]'' then Loaded (JArr [])
      else if b = ''{"input": "hello"}'' then Loaded (JObj [(''input'', JStr ''hello'')])
      else if b = ''{"input": "   "}'' then Loaded (JObj [(''input'', JStr ''   '')])
      else if b = ''{"input": null, "text": "hello"}''
        then Loaded (JObj [(''input'', JNull), (''text'', JStr ''hello'')])
      else if b = ''{"text": "hello", "voice": "en-US-AvaNeural"}''
        then Loaded (JObj [(''text'', JStr ''hello''), (''voice'', JStr ''en-US-AvaNeural'')])
      else JSONDecodeError)\<close>

definition dumps0 :: "json \<Rightarrow> string" where
  \<open>dumps0 j =
     (if j = JObj [(''status'', JStr ''ok''), (''voice'', JStr ''en-US-AvaNeural'')]
      then ''{"status": "ok", "voice": "en-US-AvaNeural"}''
      else [])\<close>

definition repr0 :: "json \<Rightarrow> string" where
  "repr0 j = (case j of JStr s \<Rightarrow> [CHR 0x27] @ s @ [CHR 0x27] | _ \<Rightarrow> [])"

definition lib0 :: lib where
  "lib0 = \<lparr>json_loads = loads0, json_dumps = dumps0, py_repr = repr0,
            md5_hexdigest = (\<lambda>s. s)\<rparr>"

definition cfg0 :: config where
  "cfg0 = \<lparr>VOICE = ''en-US-AvaNeural'', CACHE_DIR = ''/tmp/sam-tts-cache''\<rparr>"

text \<open>An empty cache directory and no command started yet.\<close>

definition st0 :: state where
  "st0 = \<lparr>files = Map.empty, calls = []\<rparr>"

text \<open>A request to the speech endpoint whose \<open>Content-Length\<close> is the length of its body.\<close>

definition post0 :: "bytes \<Rightarrow> request" where
  "post0 b = \<lparr>path = ''/v1/audio/speech'', content_length = HeaderInt (int (length b)),
              rfile = b\<rparr>"

text \<open>A run of the external command that ends in the given way, whatever its arguments.\<close>

definition engine :: "outcome \<Rightarrow> bytes option \<Rightarrow> string list \<Rightarrow> proc" where
  "engine oc m argv = \<lparr>outcome = oc, media = m\<rparr>"

text \<open>The request used in most examples, the path of its cache file, and the command
  started for it.\<close>

definition hello :: request where
  \<open>hello = post0 ''{"input": "hello"}''\<close>

text \<open>The same voice and text, asked for with the key \<open>text\<close> and the voice spelled out.\<close>

definition hello_text :: request where
  \<open>hello_text = post0 ''{"text": "hello", "voice": "en-US-AvaNeural"}''\<close>

definition hello_path :: string where
  "hello_path = ''/tmp/sam-tts-cache/en-US-AvaNeural:hello.mp3''"

definition hello_argv :: "string list" where
  "hello_argv = [''edge-tts'', ''--voice'', ''en-US-AvaNeural'', ''--text'', ''hello'',
                 ''--write-media'', hello_path]"

section \<open>Properties\<close>

subsection \<open>Auxiliary facts\<close>

text \<open>The fixed messages of the handler are ASCII, so that \<open>send_error\<close> sends them.\<close>

lemma send_error_fixed [simp]:
  "send_error code None = SendError code None"
  "send_error code (Some ''Invalid JSON'') = SendError code (Some ''Invalid JSON'')"
  "send_error code (Some ''No text provided'') = SendError code (Some ''No text provided'')"
  "send_error code (Some ''TTS timeout'') = SendError code (Some ''TTS timeout'')"
  by (simp_all add: send_error_def latin1_encodable_def)

lemma send_error_failed:
  "send_error code (Some (''TTS failed: '' @ stderr)) =
     (if latin1_encodable stderr then SendError code (Some (''TTS failed: '' @ stderr))
      else Unhandled UnicodeEncodeError)"
  by (simp add: send_error_def latin1_encodable_def)

lemma send_error_no_Response [simp]: "send_error code message \<noteq> Response c hdrs body"
  by (simp add: send_error_def split: option.splits)

lemma serve_audio_state: "fst (serve_audio st p) = st"
  by (simp add: serve_audio_def split: option.splits)

lemma speech_files_kept:
  "files st q = Some b \<Longrightarrow> files (fst (speech L C run st voice text)) q = Some b"
  by (auto simp: speech_def Let_def serve_audio_state split: json.splits outcome.splits option.splits)

lemma do_POST_files_kept:
  "files st q = Some b \<Longrightarrow> files (fst (do_POST L C run st req)) q = Some b"
  by (auto simp: do_POST_def speech_files_kept split: sum.splits)

lemma do_GET_state: "fst (do_GET L C st req) = st"
  by (simp add: do_GET_def)

lemma handle_files_kept:
  "files st q = Some b \<Longrightarrow> files (fst (handle L C run st command req)) q = Some b"
  by (simp add: handle_def do_POST_files_kept do_GET_state)

lemma serve_forever_files_kept:
  "files st q = Some b \<Longrightarrow> files (fst (serve_forever L C st arrivals)) q = Some b"
proof (induction arrivals arbitrary: st)
  case Nil
  then show ?case by simp
next
  case (Cons a arrivals)
  obtain run command req where a: "a = (run, command, req)" by (cases a) auto
  obtain st1 r where h: "handle L C run st command req = (st1, r)" by (cases "handle L C run st command req") auto
  have "files st1 q = Some b" using handle_files_kept [OF Cons.prems, of L C run command req] h by simp
  from Cons.IH [OF this] show ?case
    by (auto simp: a h split: prod.splits)
qed

lemma speech_hit:
  "files st (cache_path L C voice text) = Some b \<Longrightarrow>
   encode (format_value L voice @ '':'' @ format_value L text) \<noteq> None \<Longrightarrow>
   speech L C run st voice text =
     (st, Response 200 [(''Content-Type'', ''audio/mpeg''), (''Content-Length'', str_nat (length b))] b)"
  by (simp add: speech_def serve_audio_def)

lemma serve_audio_Response:
  "serve_audio st p = (st', Response code hdrs body) \<Longrightarrow>
   st' = st \<and> code = 200 \<and>
   hdrs = [(''Content-Type'', ''audio/mpeg''), (''Content-Length'', str_nat (length body))] \<and>
   files st p = Some body"
  by (auto simp: serve_audio_def split: option.splits)

lemma speech_Response:
  "speech L C run st voice text = (st', Response code hdrs body) \<Longrightarrow>
   code = 200 \<and>
   hdrs = [(''Content-Type'', ''audio/mpeg''), (''Content-Length'', str_nat (length body))] \<and>
   files st' (cache_path L C voice text) = Some body \<and>
   encode (format_value L voice @ '':'' @ format_value L text) \<noteq> None"
  by (auto simp: speech_def Let_def split: if_splits json.splits outcome.splits dest!: serve_audio_Response)

lemma digit_val_digit_char: "d < 10 \<Longrightarrow> digit_val (digit_char d) = d"
proof -
  assume "d < 10"
  then have "d \<in> {0,1,2,3,4,5,6,7,8,9}" by auto
  then show ?thesis by (auto simp: digit_val_def digit_char_def)
qed

lemma nat_of_str_snoc: "nat_of_str (s @ [c]) = 10 * nat_of_str s + digit_val c"
  by (simp add: nat_of_str_def)

lemma nat_of_str_str_nat: "nat_of_str (str_nat n) = n"
proof (induction n rule: str_nat.induct)
  case (1 n)
  show ?case
  proof (cases "n < 10")
    case True
    then show ?thesis
      using nat_of_str_snoc [of "[]" "digit_char n"]
      by (simp add: str_nat.simps [of n] digit_val_digit_char nat_of_str_def)
  next
    case False
    then show ?thesis
      using 1 by (simp add: str_nat.simps [of n] nat_of_str_snoc digit_val_digit_char)
  qed
qed

lemma post0_simps:
  "path (post0 b) = ''/v1/audio/speech''"
  "header_int (content_length (post0 b)) = Some (int (length b))"
  "rfile_read (rfile (post0 b)) (int (length b)) = Some b"
  by (simp_all add: post0_def header_int_def rfile_read_def)

lemmas model_defs = do_POST_def post_params_def speech_def serve_audio_def cache_path_def
  cache_key_def format_value_def path_join_def edge_tts_argv_def dict_get_def
  header_int_def rfile_read_def encode_def

lemmas example_defs = lib0_def cfg0_def st0_def post0_def engine_def loads0_def dumps0_def repr0_def

lemma do_POST_Inr:
  "post_params L C req = Inr (voice, text) \<Longrightarrow> do_POST L C run st req = speech L C run st voice text"
  by (simp add: do_POST_def)

lemma speech_miss_Response:
  assumes "files st (cache_path L C voice text) = None"
    and "speech L C run st voice text = (st', Response code hdrs body)"
  shows "\<exists>v t. voice = JStr v \<and> text = JStr t \<and>
           calls st' = calls st @ [edge_tts_argv v t (cache_path L C voice text)]"
  using assms
  by (auto simp: speech_def Let_def split: json.splits outcome.splits if_splits
           dest!: serve_audio_Response)

lemma serve_forever_hits:
  assumes "files st (cache_path L C voice text) = Some B"
    and "encode (format_value L voice @ '':'' @ format_value L text) \<noteq> None"
    and "\<forall>a \<in> set arrivals.
           fst (snd a) = ''POST'' \<and> post_params L C (snd (snd a)) = Inr (voice, text)"
  shows "serve_forever L C st arrivals =
           (st, replicate (length arrivals)
                  (Response 200 [(''Content-Type'', ''audio/mpeg''),
                                 (''Content-Length'', str_nat (length B))] B))"
  using assms(3)
proof (induction arrivals)
  case Nil
  then show ?case by simp
next
  case (Cons a arrivals)
  obtain run req where a: "a = (run, ''POST'', req)"
    and p: "post_params L C req = Inr (voice, text)"
    using Cons.prems by (cases a) auto
  have h: "handle L C run st ''POST'' req =
             (st, Response 200 [(''Content-Type'', ''audio/mpeg''),
                                (''Content-Length'', str_nat (length B))] B)"
    by (simp add: handle_def do_POST_Inr [OF p] speech_hit [OF assms(1,2)])
  show ?case using Cons by (simp add: a h)
qed

lemma joined_inj:
  "c \<notin> set v \<Longrightarrow> c \<notin> set v' \<Longrightarrow> v @ c # t = v' @ c # t' \<Longrightarrow> v = v' \<and> t = t'"
proof (induction v arbitrary: v')
  case Nil
  then show ?case by (cases v') auto
next
  case (Cons a v)
  then show ?case by (cases v') auto
qed

text \<open>The example request, evaluated.\<close>

lemma st0_simps: "files st0 p = None" "calls st0 = []"
  by (simp_all add: st0_def)

lemma hello_params:
  "post_params lib0 cfg0 hello = Inr (JStr ''en-US-AvaNeural'', JStr ''hello'')"
  by (simp add: hello_def post_params_def dict_get_def header_int_def rfile_read_def example_defs)

lemma hello_text_params:
  "post_params lib0 cfg0 hello_text = Inr (JStr ''en-US-AvaNeural'', JStr ''hello'')"
  by (simp add: hello_text_def post_params_def dict_get_def header_int_def rfile_read_def
        example_defs)

lemma hello_cache_path:
  "cache_path lib0 cfg0 (JStr ''en-US-AvaNeural'') (JStr ''hello'') = hello_path"
  by (simp add: cache_path_def cache_key_def format_value_def path_join_def lib0_def cfg0_def
        hello_path_def)

lemma hello_run:
  "do_POST lib0 cfg0 run st hello =
     speech lib0 cfg0 run st (JStr ''en-US-AvaNeural'') (JStr ''hello'')"
  by (simp add: do_POST_Inr [OF hello_params])

lemma hello_ok:
  "do_POST lib0 cfg0 (engine (Returned 0 []) (Some ''AUDIO'')) st0 hello =
     (\<lparr>files = [hello_path \<mapsto> ''AUDIO''], calls = [hello_argv]\<rparr>,
      Response 200 [(''Content-Type'', ''audio/mpeg''), (''Content-Length'', ''5'')] ''AUDIO'')"
  by (simp add: hello_run speech_def format_value_def encode_def hello_cache_path Let_def engine_def
        serve_audio_def st0_def edge_tts_argv_def hello_argv_def str_nat.simps digit_char_def)

subsection \<open>Routing\<close>

text \<open>
  Claim C9, as the code has it. \<open>GET /health\<close> is answered 200 with the JSON text of
  \<open>{"status": "ok", "voice": VOICE}\<close>, and a GET of any other path 404. A POST to any
  path but \<open>/v1/audio/speech\<close> is answered 404. A request with any other method is
  answered 501 by the base class, whatever its path. None of them changes the state.
\<close>

theorem routes:
  "handle L C run st ''GET'' req =
     (if path req = ''/health''
      then (st, Response 200 [(''Content-Type'', ''application/json'')]
                  (json_dumps L (JObj [(''status'', JStr ''ok''), (''voice'', JStr (VOICE C))])))
      else (st, SendError 404 None)) \<and>
   (path req \<noteq> ''/v1/audio/speech'' \<longrightarrow>
      handle L C run st ''POST'' req = (st, SendError 404 None)) \<and>
   (command \<noteq> ''GET'' \<and> command \<noteq> ''POST'' \<longrightarrow>
      handle L C run st command req =
        (st, SendError 501
               (Some (''Unsupported method ('' @ py_repr L (JStr command) @ '')''))))"
  by (simp add: handle_def do_GET_def do_POST_def post_params_def)

theorem routes_witness:
  \<open>handle lib0 cfg0 (engine Raised None) st0 ''GET''
      \<lparr>path = ''/health'', content_length = NoHeader, rfile = []\<rparr> =
     (st0, Response 200 [(''Content-Type'', ''application/json'')]
             ''{"status": "ok", "voice": "en-US-AvaNeural"}'') \<and>
   handle lib0 cfg0 (engine Raised None) st0 ''GET''
      \<lparr>path = ''/'', content_length = NoHeader, rfile = []\<rparr> = (st0, SendError 404 None) \<and>
   ''/health'' \<noteq> ''/v1/audio/speech'' \<and>
   handle lib0 cfg0 (engine Raised None) st0 ''POST''
      \<lparr>path = ''/health'', content_length = NoHeader, rfile = []\<rparr> = (st0, SendError 404 None) \<and>
   ''HEAD'' \<noteq> ''GET'' \<and> ''HEAD'' \<noteq> ''POST'' \<and>
   handle lib0 cfg0 (engine Raised None) st0 ''HEAD''
      \<lparr>path = ''/health'', content_length = NoHeader, rfile = []\<rparr> =
     (st0, SendError 501
             (Some (''Unsupported method ('' @ [CHR 0x27] @ ''HEAD'' @ [CHR 0x27] @ '')'')))\<close>
  using routes [of lib0 cfg0 "engine Raised None" st0
                  "\<lparr>path = ''/health'', content_length = NoHeader, rfile = []\<rparr>" "''HEAD''"]
        routes [of lib0 cfg0 "engine Raised None" st0
                  "\<lparr>path = ''/'', content_length = NoHeader, rfile = []\<rparr>" "''HEAD''"]
  by (simp add: lib0_def cfg0_def dumps0_def repr0_def)

text \<open>
  The specification has 404 for every other combination of path and method. The
  handler has no method for \<open>PUT\<close>, so the base class answers 501.
\<close>

theorem put_is_answered_501:
  "handle lib0 cfg0 (engine Raised None) st0 ''PUT''
     \<lparr>path = ''/health'', content_length = NoHeader, rfile = []\<rparr> =
   (st0, SendError 501 (Some (''Unsupported method ('' @ [CHR 0x27] @ ''PUT'' @ [CHR 0x27] @ '')'')))"
  by (simp add: handle_def example_defs)

subsection \<open>Malformed bodies\<close>

text \<open>A body that \<open>json.loads\<close> rejects with \<open>JSONDecodeError\<close> is answered 400.\<close>

lemma unparsable_body_is_rejected:
  assumes "path req = ''/v1/audio/speech''"
    and "header_int (content_length req) = Some n"
    and "rfile_read (rfile req) n = Some body"
    and "json_loads L body = JSONDecodeError"
  shows "do_POST L C run st req = (st, SendError 400 (Some ''Invalid JSON''))"
  using assms by (simp add: do_POST_def post_params_def)

text \<open>
  A \<open>Content-Length\<close> below \<open>-1\<close> makes \<open>rfile.read\<close> raise \<open>ValueError\<close>: no body is read
  and the client gets no response.
\<close>

lemma length_below_minus_one_raises:
  assumes "path req = ''/v1/audio/speech''"
    and "content_length req = HeaderInt n" and "n < -1"
  shows "do_POST L C run st req = (st, Unhandled ValueError)"
  using assms by (simp add: do_POST_def post_params_def header_int_def rfile_read_def)

text \<open>
  Claim C7 says every malformed body is answered 400 without side effects. The body
  \<open>[]\<close> is JSON but not an object: \<open>json.loads\<close> returns a list, \<open>data.get\<close> raises
  \<open>AttributeError\<close>, which nothing catches, and the client gets no response at all.
\<close>

theorem non_object_body_raises:
  "do_POST lib0 cfg0 run st (post0 ''[]'') = (st, Unhandled AttributeError)"
  by (simp add: model_defs example_defs)

subsection \<open>Requests without text\<close>

text \<open>
  Claim C10. A POST to the speech endpoint whose body is a JSON object in which
  \<open>input\<close> (or \<open>text\<close>, when \<open>input\<close> is absent) is bound to \<open>null\<close>, \<open>false\<close>, \<open>0\<close> or the
  empty string is answered with 400 "No text provided"; the files and the list of
  started commands are as before; and the answer is the one given to a request in
  which both fields are missing. The body of a request is what \<open>rfile.read\<close> returns for
  its \<open>Content-Length\<close>.
\<close>

theorem falsy_text_is_rejected:
  assumes "path req = ''/v1/audio/speech''"
    and "header_int (content_length req) = Some n"
    and "rfile_read (rfile req) n = Some body"
    and "json_loads L body = Loaded (JObj kvs)"
    and "v \<in> {JNull, JBool False, JInt 0, JStr ''''}"
    and "map_of kvs ''input'' = Some v \<or>
         (map_of kvs ''input'' = None \<and> map_of kvs ''text'' = Some v)"
    and "path req' = ''/v1/audio/speech''"
    and "header_int (content_length req') = Some n'"
    and "rfile_read (rfile req') n' = Some body'"
    and "json_loads L body' = Loaded (JObj kvs')"
    and "map_of kvs' ''input'' = None" and "map_of kvs' ''text'' = None"
  shows "do_POST L C run st req = (st, SendError 400 (Some ''No text provided'')) \<and>
         do_POST L C run st req = do_POST L C run st req'"
proof -
  have "\<not> truthy v" using assms(5) by auto
  then have "\<not> truthy (dict_get kvs ''input'' (dict_get kvs ''text'' (JStr '''')))"
    using assms(6) by (auto simp: dict_get_def)
  then have a: "post_params L C req = Inl (SendError 400 (Some ''No text provided''))"
    using assms(1-4) by (simp add: post_params_def)
  have "dict_get kvs' ''input'' (dict_get kvs' ''text'' (JStr '''')) = JStr ''''"
    using assms(11,12) by (simp add: dict_get_def)
  then have b: "post_params L C req' = Inl (SendError 400 (Some ''No text provided''))"
    using assms(7-10) by (simp add: post_params_def)
  show ?thesis by (simp add: do_POST_def a b)
qed

theorem falsy_text_is_rejected_witness:
  \<open>do_POST lib0 cfg0 (engine (Returned 0 []) (Some ''ID3'')) st0
      (post0 ''{"input": null, "text": "hello"}'') =
     (st0, SendError 400 (Some ''No text provided'')) \<and>
   do_POST lib0 cfg0 (engine (Returned 0 []) (Some ''ID3'')) st0
      (post0 ''{"input": null, "text": "hello"}'') =
   do_POST lib0 cfg0 (engine (Returned 0 []) (Some ''ID3'')) st0 (post0 ''{}'')\<close>
proof -
  let ?b = \<open>''{"input": null, "text": "hello"}''\<close>
  have 1: "path (post0 ?b) = ''/v1/audio/speech''" by (simp add: post0_simps)
  have 2: "header_int (content_length (post0 ?b)) = Some 32" by (simp add: post0_def header_int_def)
  have 3: "rfile_read (rfile (post0 ?b)) 32 = Some ?b"
    by (simp add: post0_def rfile_read_def)
  have j: "json_loads lib0 ?b = Loaded (JObj [(''input'', JNull), (''text'', JStr ''hello'')])"
    by (simp add: lib0_def loads0_def)
  have 4: "JNull \<in> {JNull, JBool False, JInt 0, JStr ''''}" by simp
  have 5: "map_of [(''input'', JNull), (''text'', JStr ''hello'')] ''input'' = Some JNull \<or>
           (map_of [(''input'', JNull), (''text'', JStr ''hello'')] ''input'' = None \<and>
            map_of [(''input'', JNull), (''text'', JStr ''hello'')] ''text'' = Some JNull)" by simp
  have 6: "path (post0 ''{}'') = ''/v1/audio/speech''" by (simp add: post0_simps)
  have 7: "header_int (content_length (post0 ''{}'')) = Some 2" by (simp add: post0_def header_int_def)
  have 8: "rfile_read (rfile (post0 ''{}'')) 2 = Some ''{}''"
    by (simp add: post0_def rfile_read_def)
  have j': "json_loads lib0 ''{}'' = Loaded (JObj [])"
    by (simp add: lib0_def loads0_def)
  have 9: "map_of ([] :: (string \<times> json) list) ''input'' = None" by simp
  have 10: "map_of ([] :: (string \<times> json) list) ''text'' = None" by simp
  show ?thesis
    by (rule falsy_text_is_rejected [OF 1 2 3 j 4 5 6 7 8 j' 9 10])
qed

text \<open>
  Claim C6, as the code has it. A POST to the speech endpoint whose body is a JSON
  object in which the text is missing (neither \<open>input\<close> nor \<open>text\<close> is there) or is the
  empty string is answered 400, and the files and the list of started commands are as
  before. The body of a request is what \<open>rfile.read\<close> returns for its \<open>Content-Length\<close>.
\<close>

theorem missing_or_empty_text_is_rejected:
  assumes "path req = ''/v1/audio/speech''"
    and "header_int (content_length req) = Some n"
    and "rfile_read (rfile req) n = Some body"
    and "json_loads L body = Loaded (JObj kvs)"
    and "(map_of kvs ''input'' = None \<and> map_of kvs ''text'' = None) \<or>
         map_of kvs ''input'' = Some (JStr '''') \<or>
         (map_of kvs ''input'' = None \<and> map_of kvs ''text'' = Some (JStr ''''))"
  shows "do_POST L C run st req = (st, SendError 400 (Some ''No text provided''))"
proof -
  have "dict_get kvs ''input'' (dict_get kvs ''text'' (JStr '''')) = JStr ''''"
    using assms(5) by (auto simp: dict_get_def)
  then show ?thesis
    using assms(1-4) by (simp add: do_POST_def post_params_def)
qed

theorem missing_or_empty_text_is_rejected_witness:
  \<open>do_POST lib0 cfg0 (engine (Returned 0 []) (Some ''ID3'')) st0 (post0 ''{}'') =
     (st0, SendError 400 (Some ''No text provided''))\<close>
proof -
  have 1: "path (post0 ''{}'') = ''/v1/audio/speech''" by (simp add: post0_def)
  have 2: "header_int (content_length (post0 ''{}'')) = Some 2"
    by (simp add: post0_def header_int_def)
  have 3: "rfile_read (rfile (post0 ''{}'')) 2 = Some ''{}''"
    by (simp add: post0_def rfile_read_def)
  have j: "json_loads lib0 ''{}'' = Loaded (JObj [])"
    by (simp add: lib0_def loads0_def)
  have 4: "(map_of ([] :: (string \<times> json) list) ''input'' = None \<and>
            map_of ([] :: (string \<times> json) list) ''text'' = None) \<or>
           map_of ([] :: (string \<times> json) list) ''input'' = Some (JStr '''') \<or>
           (map_of ([] :: (string \<times> json) list) ''input'' = None \<and>
            map_of ([] :: (string \<times> json) list) ''text'' = Some (JStr ''''))" by simp
  show ?thesis by (rule missing_or_empty_text_is_rejected [OF 1 2 3 j 4])
qed

text \<open>
  The specification also rejects a text that is empty after trimming. The handler trims
  nothing: a text of three spaces is truthy, the command is started for it and its
  audio is served.
\<close>

theorem whitespace_text_is_synthesized:
  \<open>snd (do_POST lib0 cfg0 (engine (Returned 0 []) (Some ''ID3'')) st0
          (post0 ''{"input": "   "}'')) =
     Response 200 [(''Content-Type'', ''audio/mpeg''), (''Content-Length'', ''3'')] ''ID3'' \<and>
   calls (fst (do_POST lib0 cfg0 (engine (Returned 0 []) (Some ''ID3'')) st0
          (post0 ''{"input": "   "}''))) =
     [[''edge-tts'', ''--voice'', ''en-US-AvaNeural'', ''--text'', ''   '', ''--write-media'',
       ''/tmp/sam-tts-cache/en-US-AvaNeural:   .mp3'']]\<close>
  by (simp add: model_defs example_defs Let_def str_nat.simps digit_char_def)

subsection \<open>The cache key\<close>

text \<open>
  Claim C4, as the code has it. The key of a voice and a text is the digest of the one
  string \<open>voice:text\<close> and depends on nothing else: neither on the state nor on the
  configuration. When two pairs whose voices contain no colon have the same key, they
  are the same pair or the digest maps two different strings to one value.
\<close>

theorem cache_key_of_joined_text:
  "cache_key L (JStr v) (JStr t) = md5_hexdigest L (v @ '':'' @ t) \<and>
   (CHR '':'' \<notin> set v \<and> CHR '':'' \<notin> set v' \<and>
    cache_key L (JStr v) (JStr t) = cache_key L (JStr v') (JStr t') \<longrightarrow>
      (v = v' \<and> t = t') \<or> (\<exists>x y. x \<noteq> y \<and> md5_hexdigest L x = md5_hexdigest L y))"
proof -
  have k: "\<And>a b. cache_key L (JStr a) (JStr b) = md5_hexdigest L (a @ '':'' @ b)"
    by (simp add: cache_key_def format_value_def)
  show ?thesis
  proof (intro conjI impI)
    show "cache_key L (JStr v) (JStr t) = md5_hexdigest L (v @ '':'' @ t)" by (rule k)
  next
    assume h: "CHR '':'' \<notin> set v \<and> CHR '':'' \<notin> set v' \<and>
               cache_key L (JStr v) (JStr t) = cache_key L (JStr v') (JStr t')"
    show "(v = v' \<and> t = t') \<or> (\<exists>x y. x \<noteq> y \<and> md5_hexdigest L x = md5_hexdigest L y)"
    proof (cases "v @ '':'' @ t = v' @ '':'' @ t'")
      case True
      then have "v = v' \<and> t = t'" using h joined_inj [of "CHR '':''" v v' t t'] by simp
      then show ?thesis ..
    next
      case False
      moreover have "md5_hexdigest L (v @ '':'' @ t) = md5_hexdigest L (v' @ '':'' @ t')"
        using h by (simp add: k)
      ultimately show ?thesis by blast
    qed
  qed
qed

theorem cache_key_of_joined_text_witness:
  "cache_key (lib0\<lparr>md5_hexdigest := take 2\<rparr>) (JStr ''en'') (JStr ''hello'') = ''en'' \<and>
   CHR '':'' \<notin> set ''en'' \<and> CHR '':'' \<notin> set ''en'' \<and>
   cache_key (lib0\<lparr>md5_hexdigest := take 2\<rparr>) (JStr ''en'') (JStr ''hello'') =
   cache_key (lib0\<lparr>md5_hexdigest := take 2\<rparr>) (JStr ''en'') (JStr ''bye'') \<and>
   ((''en'' = ''en'' \<and> ''hello'' = ''bye'') \<or>
    (\<exists>x y. x \<noteq> y \<and> take 2 x = take 2 (y :: string)))"
  using cache_key_of_joined_text [of "lib0\<lparr>md5_hexdigest := take 2\<rparr>" "''en''" "''hello''" "''en''" "''bye''"]
  by (simp add: cache_key_def format_value_def)

text \<open>
  The specification has the key injective. Two different pairs that are joined to the
  same string have the same key, whatever the digest is; with the identity as digest:
\<close>

theorem key_collision:
  "cache_key lib0 (JStr ''a:b'') (JStr ''c'') = cache_key lib0 (JStr ''a'') (JStr ''b:c'') \<and>
   (''a:b'', ''c'') \<noteq> (''a'', ''b:c'')"
  by (simp add: cache_key_def format_value_def lib0_def)

lemma key_collision_any_digest:
  "cache_key L (JStr ''a:b'') (JStr ''c'') = cache_key L (JStr ''a'') (JStr ''b:c'')"
  by (simp add: cache_key_def format_value_def)

subsection \<open>Responses of the speech endpoint\<close>

text \<open>
  When the handler has a voice and a text: a response that is not an error has status
  200, the headers \<open>Content-Type: audio/mpeg\<close> and \<open>Content-Length\<close> with the decimal text
  of the length of the body, which reads back as that length, and its body is the
  content of the cache file of this voice and text. When the file is not there and the
  command returns a code other than 0, \<open>send_error\<close> is called with 500 and
  "TTS failed: " followed by the command's standard error: the answer is that, when
  the standard error can be encoded in Latin-1, and no answer at all otherwise. When
  the command times out, the answer is 500 "TTS timeout".
\<close>

lemma speech_responses:
  assumes "post_params L C req = Inr (voice, text)"
  shows "(\<forall>st' code hdrs body.
            do_POST L C run st req = (st', Response code hdrs body) \<longrightarrow>
              code = 200 \<and>
              hdrs = [(''Content-Type'', ''audio/mpeg''),
                      (''Content-Length'', str_nat (length body))] \<and>
              nat_of_str (str_nat (length body)) = length body \<and>
              files st' (cache_path L C voice text) = Some body) \<and>
         (\<forall>v t returncode stderr.
            voice = JStr v \<and> text = JStr t \<and> encode (v @ '':'' @ t) \<noteq> None \<and>
            files st (cache_path L C voice text) = None \<and>
            outcome (run (edge_tts_argv v t (cache_path L C voice text))) =
              Returned returncode stderr \<and> returncode \<noteq> 0 \<longrightarrow>
              snd (do_POST L C run st req) =
                (if latin1_encodable stderr
                 then SendError 500 (Some (''TTS failed: '' @ stderr))
                 else Unhandled UnicodeEncodeError)) \<and>
         (\<forall>v t.
            voice = JStr v \<and> text = JStr t \<and> encode (v @ '':'' @ t) \<noteq> None \<and>
            files st (cache_path L C voice text) = None \<and>
            outcome (run (edge_tts_argv v t (cache_path L C voice text))) = TimeoutExpired \<longrightarrow>
              snd (do_POST L C run st req) = SendError 500 (Some ''TTS timeout''))"
proof (intro conjI allI impI)
  fix st' code hdrs body
  assume "do_POST L C run st req = (st', Response code hdrs body)"
  then have s: "speech L C run st voice text = (st', Response code hdrs body)"
    using assms by (simp add: do_POST_Inr)
  from speech_Response [OF s]
  show "code = 200"
    and "hdrs = [(''Content-Type'', ''audio/mpeg''), (''Content-Length'', str_nat (length body))]"
    and "files st' (cache_path L C voice text) = Some body"
    by simp_all
  show "nat_of_str (str_nat (length body)) = length body" by (rule nat_of_str_str_nat)
next
  fix v t returncode stderr
  assume "voice = JStr v \<and> text = JStr t \<and> encode (v @ '':'' @ t) \<noteq> None \<and>
          files st (cache_path L C voice text) = None \<and>
          outcome (run (edge_tts_argv v t (cache_path L C voice text))) =
            Returned returncode stderr \<and> returncode \<noteq> 0"
  then show "snd (do_POST L C run st req) =
               (if latin1_encodable stderr
                then SendError 500 (Some (''TTS failed: '' @ stderr))
                else Unhandled UnicodeEncodeError)"
    using assms
    by (clarsimp simp: do_POST_Inr speech_def Let_def format_value_def send_error_def
          latin1_encodable_def)
next
  fix v t
  assume "voice = JStr v \<and> text = JStr t \<and> encode (v @ '':'' @ t) \<noteq> None \<and>
          files st (cache_path L C voice text) = None \<and>
          outcome (run (edge_tts_argv v t (cache_path L C voice text))) = TimeoutExpired"
  then show "snd (do_POST L C run st req) = SendError 500 (Some ''TTS timeout'')"
    using assms by (clarsimp simp: do_POST_Inr speech_def Let_def format_value_def)
qed

lemma speech_responses_example:
  "post_params lib0 cfg0 hello = Inr (JStr ''en-US-AvaNeural'', JStr ''hello'') \<and>
   do_POST lib0 cfg0 (engine (Returned 0 []) (Some ''AUDIO'')) st0 hello =
     (\<lparr>files = [hello_path \<mapsto> ''AUDIO''], calls = [hello_argv]\<rparr>,
      Response 200 [(''Content-Type'', ''audio/mpeg''), (''Content-Length'', ''5'')] ''AUDIO'') \<and>
   nat_of_str ''5'' = length ''AUDIO'' \<and>
   files \<lparr>files = [hello_path \<mapsto> ''AUDIO''], calls = [hello_argv]\<rparr>
     (cache_path lib0 cfg0 (JStr ''en-US-AvaNeural'') (JStr ''hello'')) = Some ''AUDIO'' \<and>
   files st0 (cache_path lib0 cfg0 (JStr ''en-US-AvaNeural'') (JStr ''hello'')) = None \<and>
   snd (do_POST lib0 cfg0 (engine (Returned 1 ''no network'') None) st0 hello) =
     SendError 500 (Some ''TTS failed: no network'') \<and>
   snd (do_POST lib0 cfg0 (engine TimeoutExpired None) st0 hello) =
     SendError 500 (Some ''TTS timeout'')"
proof -
  note T = speech_responses [OF hello_params]
  have a: "str_nat (length ''AUDIO'') = ''5''" by (simp add: str_nat.simps digit_char_def)
  have 1: "nat_of_str ''5'' = length ''AUDIO'' \<and>
           files \<lparr>files = [hello_path \<mapsto> ''AUDIO''], calls = [hello_argv]\<rparr>
             (cache_path lib0 cfg0 (JStr ''en-US-AvaNeural'') (JStr ''hello'')) = Some ''AUDIO''"
    using T [of "engine (Returned 0 []) (Some ''AUDIO'')" st0] hello_ok a by simp
  have m: "files st0 (cache_path lib0 cfg0 (JStr ''en-US-AvaNeural'') (JStr ''hello'')) = None"
    by (simp add: st0_simps)
  have e: "encode (''en-US-AvaNeural'' @ '':'' @ ''hello'') \<noteq> None"
    by (simp add: encode_def)
  have l: "latin1_encodable ''no network''" by (simp add: latin1_encodable_def)
  have 2: "snd (do_POST lib0 cfg0 (engine (Returned 1 ''no network'') None) st0 hello) =
           SendError 500 (Some (''TTS failed: '' @ ''no network''))"
    using T [of "engine (Returned 1 ''no network'') None" st0] m e l by (simp add: engine_def)
  have 3: "snd (do_POST lib0 cfg0 (engine TimeoutExpired None) st0 hello) =
           SendError 500 (Some ''TTS timeout'')"
    using T [of "engine TimeoutExpired None" st0] m e by (simp add: engine_def)
  show ?thesis using hello_params hello_ok 1 m 2 3 by simp
qed

text \<open>
  Claim C8 has a 500 that carries the command's diagnostic output whenever the command
  fails. The handler calls \<open>send_error\<close> for it, but the base class encodes the status
  line in Latin-1: when the standard error has a character above \<open>U+00FF\<close>, here the one
  character \<open>U+2603\<close>, \<open>UnicodeEncodeError\<close> leaves the handler and the client gets no
  response at all.
\<close>

theorem diagnostic_outside_latin1_raises:
  "do_POST lib0 cfg0 (engine (Returned 1 [CHR 0xE2, CHR 0x98, CHR 0x83]) None) st0 hello =
     (\<lparr>files = Map.empty, calls = [hello_argv]\<rparr>, Unhandled UnicodeEncodeError)"
  by (simp add: hello_run speech_def format_value_def encode_def hello_cache_path Let_def engine_def
        st0_def edge_tts_argv_def hello_argv_def send_error_def latin1_encodable_def)

subsection \<open>Serving from the cache\<close>

text \<open>
  Claim C5. After a request for a voice and a text was answered with the bytes \<open>B\<close>,
  and after any further requests the server has handled since, a request for the same
  voice and text is answered with the same status, headers and bytes \<open>B\<close>, and the
  state is as before it: no command is started, whatever the command would have done.
\<close>

theorem cached_audio_is_served_again:
  assumes "post_params L C req = Inr (voice, text)"
    and "do_POST L C run st req = (st1, Response code hdrs B)"
    and "serve_forever L C st1 arrivals = (st2, rs)"
    and "post_params L C req' = Inr (voice, text)"
  shows "do_POST L C run' st2 req' = (st2, Response code hdrs B)"
proof -
  have s: "speech L C run st voice text = (st1, Response code hdrs B)"
    using assms(1,2) by (simp add: do_POST_Inr)
  note r = speech_Response [OF s]
  have "files st1 (cache_path L C voice text) = Some B" using r by simp
  from serve_forever_files_kept [OF this, of L C arrivals]
  have "files st2 (cache_path L C voice text) = Some B" using assms(3) by simp
  moreover have "encode (format_value L voice @ '':'' @ format_value L text) \<noteq> None"
    using r by simp
  ultimately have "speech L C run' st2 voice text =
      (st2, Response 200 [(''Content-Type'', ''audio/mpeg''),
                          (''Content-Length'', str_nat (length B))] B)"
    by (rule speech_hit)
  then show ?thesis using r by (simp add: do_POST_Inr [OF assms(4)])
qed

theorem cached_audio_is_served_again_witness:
  "do_POST lib0 cfg0 (engine (Returned 1 ''no network'') None)
     \<lparr>files = [hello_path \<mapsto> ''AUDIO''], calls = [hello_argv]\<rparr> hello =
   (\<lparr>files = [hello_path \<mapsto> ''AUDIO''], calls = [hello_argv]\<rparr>,
    Response 200 [(''Content-Type'', ''audio/mpeg''), (''Content-Length'', ''5'')] ''AUDIO'')"
proof -
  let ?st1 = "\<lparr>files = [hello_path \<mapsto> ''AUDIO''], calls = [hello_argv]\<rparr>"
  have g: "serve_forever lib0 cfg0 ?st1
             [(engine Raised None, ''GET'', \<lparr>path = ''/health'', content_length = NoHeader, rfile = []\<rparr>)] =
           (?st1, [Response 200 [(''Content-Type'', ''application/json'')]
                     (json_dumps lib0 (JObj [(''status'', JStr ''ok''),
                                             (''voice'', JStr (VOICE cfg0))]))])"
    by (simp add: handle_def do_GET_def)
  show ?thesis
    by (rule cached_audio_is_served_again [OF hello_params hello_ok g hello_params])
qed

subsection \<open>Several requests for the same voice and text\<close>

text \<open>
  Claim C1, as the code has it. \<open>HTTPServer\<close> handles the requests that arrive together
  one after the other. When there is no cache file for a voice and a text and the first
  of \<open>N\<close> requests for them is answered with audio, all \<open>N\<close> get the same response with
  the same bytes, and exactly one command has been started.
\<close>

theorem first_success_serves_all:
  assumes "post_params L C req = Inr (voice, text)"
    and "files st (cache_path L C voice text) = None"
    and "do_POST L C run st req = (st1, Response code hdrs B)"
    and "\<forall>a \<in> set arrivals.
           fst (snd a) = ''POST'' \<and> post_params L C (snd (snd a)) = Inr (voice, text)"
  shows "serve_forever L C st ((run, ''POST'', req) # arrivals) =
           (st1, replicate (Suc (length arrivals)) (Response code hdrs B)) \<and>
         length (calls st1) = Suc (length (calls st))"
proof -
  have s: "speech L C run st voice text = (st1, Response code hdrs B)"
    using assms(1,3) by (simp add: do_POST_Inr)
  note r = speech_Response [OF s]
  have f: "files st1 (cache_path L C voice text) = Some B" using r by simp
  have e: "encode (format_value L voice @ '':'' @ format_value L text) \<noteq> None"
    using r by simp
  have h: "handle L C run st ''POST'' req = (st1, Response code hdrs B)"
    using assms(3) by (simp add: handle_def)
  have "serve_forever L C st ((run, ''POST'', req) # arrivals) =
          (st1, replicate (Suc (length arrivals)) (Response code hdrs B))"
    using serve_forever_hits [OF f e assms(4)] r by (simp add: h)
  moreover have "length (calls st1) = Suc (length (calls st))"
    using speech_miss_Response [OF assms(2) s] by auto
  ultimately show ?thesis ..
qed

theorem first_success_serves_all_witness:
  "serve_forever lib0 cfg0 st0
     [(engine (Returned 0 []) (Some ''AUDIO''), ''POST'', hello),
      (engine (Returned 1 ''no network'') None, ''POST'', hello),
      (engine TimeoutExpired None, ''POST'', hello_text)] =
   (\<lparr>files = [hello_path \<mapsto> ''AUDIO''], calls = [hello_argv]\<rparr>,
    replicate 3
      (Response 200 [(''Content-Type'', ''audio/mpeg''), (''Content-Length'', ''5'')] ''AUDIO'')) \<and>
   length (calls \<lparr>files = [hello_path \<mapsto> ''AUDIO''], calls = [hello_argv]\<rparr>) =
     Suc (length (calls st0))"
proof -
  have m: "files st0 (cache_path lib0 cfg0 (JStr ''en-US-AvaNeural'') (JStr ''hello'')) = None"
    by (simp add: st0_simps)
  have a: "\<forall>a \<in> set [(engine (Returned 1 ''no network'') None, ''POST'', hello),
                       (engine TimeoutExpired None, ''POST'', hello_text)].
             fst (snd a) = ''POST'' \<and>
             post_params lib0 cfg0 (snd (snd a)) =
               Inr (JStr ''en-US-AvaNeural'', JStr ''hello'')"
    by (simp add: hello_params hello_text_params)
  show ?thesis
    using first_success_serves_all [OF hello_params m hello_ok a] by (simp add: numeral_3_eq_3)
qed

text \<open>
  The specification has exactly one synthesis for the \<open>N\<close> requests in every case. The
  handler keeps no record of a synthesis that failed: when the command fails and leaves
  no file, the second of two requests starts it again.
\<close>

theorem failed_synthesis_is_repeated:
  "snd (serve_forever lib0 cfg0 st0
          [(engine (Returned 1 ''no network'') None, ''POST'', hello),
           (engine (Returned 1 ''no network'') None, ''POST'', hello)]) =
     [SendError 500 (Some ''TTS failed: no network''),
      SendError 500 (Some ''TTS failed: no network'')] \<and>
   calls (fst (serve_forever lib0 cfg0 st0
          [(engine (Returned 1 ''no network'') None, ''POST'', hello),
           (engine (Returned 1 ''no network'') None, ''POST'', hello)])) =
     [hello_argv, hello_argv]"
  by (simp add: handle_def hello_run speech_def format_value_def encode_def hello_cache_path Let_def
        engine_def st0_def edge_tts_argv_def hello_argv_def send_error_def
        latin1_encodable_def)

subsection \<open>A failed synthesis\<close>

text \<open>
  When the command fails or times out and has created no file, the files are as
  before and the next request for the same voice and text starts the command again.
\<close>

lemma failed_synthesis_without_output:
  assumes "post_params L C req = Inr (JStr v, JStr t)"
    and "encode (v @ '':'' @ t) \<noteq> None"
    and "files st (cache_path L C (JStr v) (JStr t)) = None"
    and "media (run (edge_tts_argv v t (cache_path L C (JStr v) (JStr t)))) = None"
    and "outcome (run (edge_tts_argv v t (cache_path L C (JStr v) (JStr t)))) = TimeoutExpired \<or>
         (\<exists>returncode stderr.
            outcome (run (edge_tts_argv v t (cache_path L C (JStr v) (JStr t)))) =
              Returned returncode stderr \<and> returncode \<noteq> 0)"
  shows "files (fst (do_POST L C run st req)) = files st"
    and "outcome (run' (edge_tts_argv v t (cache_path L C (JStr v) (JStr t)))) \<noteq> NotStarted \<Longrightarrow>
         calls (fst (do_POST L C run' (fst (do_POST L C run st req)) req)) =
           calls st @ [edge_tts_argv v t (cache_path L C (JStr v) (JStr t)),
                       edge_tts_argv v t (cache_path L C (JStr v) (JStr t))]"
proof -
  let ?p = "cache_path L C (JStr v) (JStr t)"
  let ?st1 = "st\<lparr>calls := calls st @ [edge_tts_argv v t ?p]\<rparr>"
  have 1: "fst (do_POST L C run st req) = ?st1"
    using assms by (auto simp: do_POST_Inr speech_def Let_def format_value_def)
  show "files (fst (do_POST L C run st req)) = files st" by (simp add: 1)
  have "fst (speech L C run' ?st1 (JStr v) (JStr t)) =
          ?st1\<lparr>files := (case media (run' (edge_tts_argv v t ?p)) of
                              None \<Rightarrow> files ?st1 | Some b \<Rightarrow> (files ?st1)(?p \<mapsto> b)),
                calls := calls ?st1 @ [edge_tts_argv v t ?p]\<rparr>"
    if "outcome (run' (edge_tts_argv v t ?p)) \<noteq> NotStarted"
    using assms(2,3) that
    by (auto simp: speech_def Let_def serve_audio_state format_value_def split: outcome.splits)
  then show "outcome (run' (edge_tts_argv v t (cache_path L C (JStr v) (JStr t)))) \<noteq> NotStarted \<Longrightarrow>
             calls (fst (do_POST L C run' (fst (do_POST L C run st req)) req)) =
               calls st @ [edge_tts_argv v t ?p, edge_tts_argv v t ?p]"
    using 1 by (simp add: do_POST_Inr [OF assms(1)])
qed

text \<open>
  Claim C2 says that after a failed synthesis there is no cache entry and the next
  request synthesizes again. The command is given the path of the cache file to
  write to, and the handler does not remove what a failed command has left there. Here
  the command creates an empty file and exits with code 1: the first request is
  answered 500, the file stays, and the second request is answered 200 with the empty
  file, without a second run of the command.
\<close>

theorem failed_synthesis_leaves_entry:
  "snd (serve_forever lib0 cfg0 st0
          [(engine (Returned 1 ''no network'') (Some []), ''POST'', hello),
           (engine (Returned 0 []) (Some ''AUDIO''), ''POST'', hello)]) =
     [SendError 500 (Some ''TTS failed: no network''),
      Response 200 [(''Content-Type'', ''audio/mpeg''), (''Content-Length'', ''0'')] []] \<and>
   calls (fst (serve_forever lib0 cfg0 st0
          [(engine (Returned 1 ''no network'') (Some []), ''POST'', hello),
           (engine (Returned 0 []) (Some ''AUDIO''), ''POST'', hello)])) = [hello_argv] \<and>
   files (fst (do_POST lib0 cfg0 (engine (Returned 1 ''no network'') (Some [])) st0 hello))
     hello_path = Some []"
  by (simp add: handle_def hello_run speech_def format_value_def encode_def hello_cache_path Let_def
        engine_def st0_def edge_tts_argv_def hello_argv_def serve_audio_def str_nat.simps
        digit_char_def send_error_def latin1_encodable_def)

subsection \<open>How a cache entry comes to be\<close>

text \<open>
  Claim C3, as the code has it. On a miss the handler starts the command with the path
  of the cache file itself after \<open>--write-media\<close>; there is no temporary file and no
  renaming. What is then under that path is what the command has left there, and when
  the command returns 0 with its output complete, these are the bytes the request is
  answered with. (When the joined text does not encode, or no command could be
  started, the handler ends with an exception and the state is as before.) A file that
  exists is not written again by any later request: every later reader finds the same
  bytes.
\<close>

theorem engine_writes_entry_in_place:
  "(post_params L C req = Inr (JStr v, JStr t) \<and>
    files st (cache_path L C (JStr v) (JStr t)) = None \<longrightarrow>
      (if encode (v @ '':'' @ t) = None
       then do_POST L C run st req = (st, Unhandled UnicodeEncodeError)
       else if outcome (run [''edge-tts'', ''--voice'', v, ''--text'', t, ''--write-media'',
                             cache_path L C (JStr v) (JStr t)]) = NotStarted
       then do_POST L C run st req = (st, Unhandled LibraryError)
       else
         calls (fst (do_POST L C run st req)) =
           calls st @ [[''edge-tts'', ''--voice'', v, ''--text'', t, ''--write-media'',
                        cache_path L C (JStr v) (JStr t)]] \<and>
         files (fst (do_POST L C run st req)) (cache_path L C (JStr v) (JStr t)) =
           media (run [''edge-tts'', ''--voice'', v, ''--text'', t, ''--write-media'',
                       cache_path L C (JStr v) (JStr t)]) \<and>
         (\<forall>stderr B.
            run [''edge-tts'', ''--voice'', v, ''--text'', t, ''--write-media'',
                 cache_path L C (JStr v) (JStr t)] =
              \<lparr>outcome = Returned 0 stderr, media = Some B\<rparr> \<longrightarrow>
            snd (do_POST L C run st req) =
              Response 200 [(''Content-Type'', ''audio/mpeg''),
                            (''Content-Length'', str_nat (length B))] B))) \<and>
   (files st q = Some b \<longrightarrow> files (fst (serve_forever L C st arrivals)) q = Some b)"
proof (intro conjI impI)
  assume h: "post_params L C req = Inr (JStr v, JStr t) \<and>
             files st (cache_path L C (JStr v) (JStr t)) = None"
  let ?p = "cache_path L C (JStr v) (JStr t)"
  let ?argv = "[''edge-tts'', ''--voice'', v, ''--text'', t, ''--write-media'', ?p]"
  have d: "do_POST L C run st req = speech L C run st (JStr v) (JStr t)"
    using h by (simp add: do_POST_Inr)
  show "if encode (v @ '':'' @ t) = None
        then do_POST L C run st req = (st, Unhandled UnicodeEncodeError)
        else if outcome (run ?argv) = NotStarted
        then do_POST L C run st req = (st, Unhandled LibraryError)
        else
          calls (fst (do_POST L C run st req)) = calls st @ [?argv] \<and>
          files (fst (do_POST L C run st req)) ?p = media (run ?argv) \<and>
          (\<forall>stderr B.
             run ?argv = \<lparr>outcome = Returned 0 stderr, media = Some B\<rparr> \<longrightarrow>
             snd (do_POST L C run st req) =
               Response 200 [(''Content-Type'', ''audio/mpeg''),
                             (''Content-Length'', str_nat (length B))] B)"
  proof (cases "encode (v @ '':'' @ t) = None")
    case True
    then show ?thesis by (simp add: d speech_def format_value_def)
  next
    case enc: False
    show ?thesis
    proof (cases "outcome (run ?argv) = NotStarted")
      case True
      then show ?thesis
        using h enc by (simp add: d speech_def format_value_def Let_def edge_tts_argv_def)
    next
      case False
      have "calls (fst (do_POST L C run st req)) = calls st @ [?argv]"
        using h enc False
        by (auto simp: d speech_def format_value_def Let_def edge_tts_argv_def serve_audio_state
                 split: outcome.splits)
      moreover have "files (fst (do_POST L C run st req)) ?p = media (run ?argv)"
        using h enc False
        by (auto simp: d speech_def format_value_def Let_def edge_tts_argv_def serve_audio_state
                 split: outcome.splits option.splits)
      moreover have "snd (do_POST L C run st req) =
                       Response 200 [(''Content-Type'', ''audio/mpeg''),
                                     (''Content-Length'', str_nat (length B))] B"
        if "run ?argv = \<lparr>outcome = Returned 0 stderr, media = Some B\<rparr>" for stderr B
        using h enc that
        by (simp add: d speech_def format_value_def Let_def edge_tts_argv_def serve_audio_def)
      ultimately show ?thesis using enc False by auto
    qed
  qed
next
  assume "files st q = Some b"
  then show "files (fst (serve_forever L C st arrivals)) q = Some b"
    by (rule serve_forever_files_kept)
qed

theorem engine_writes_entry_in_place_witness:
  "post_params lib0 cfg0 hello = Inr (JStr ''en-US-AvaNeural'', JStr ''hello'') \<and>
   files st0 (cache_path lib0 cfg0 (JStr ''en-US-AvaNeural'') (JStr ''hello'')) = None \<and>
   calls (fst (do_POST lib0 cfg0 (engine (Returned 0 []) (Some ''AUDIO'')) st0 hello)) =
     calls st0 @ [[''edge-tts'', ''--voice'', ''en-US-AvaNeural'', ''--text'', ''hello'',
                   ''--write-media'', hello_path]] \<and>
   files (fst (do_POST lib0 cfg0 (engine (Returned 0 []) (Some ''AUDIO'')) st0 hello))
     hello_path = Some ''AUDIO'' \<and>
   snd (do_POST lib0 cfg0 (engine (Returned 0 []) (Some ''AUDIO'')) st0 hello) =
     Response 200 [(''Content-Type'', ''audio/mpeg''), (''Content-Length'', ''5'')] ''AUDIO'' \<and>
   files \<lparr>files = [hello_path \<mapsto> ''AUDIO''], calls = [hello_argv]\<rparr> hello_path =
     Some ''AUDIO'' \<and>
   files (fst (serve_forever lib0 cfg0
                 \<lparr>files = [hello_path \<mapsto> ''AUDIO''], calls = [hello_argv]\<rparr>
                 [(engine TimeoutExpired (Some ''AU''), ''POST'', hello)])) hello_path =
     Some ''AUDIO''"
proof -
  let ?run = "engine (Returned 0 []) (Some ''AUDIO'')"
  let ?st1 = "\<lparr>files = [hello_path \<mapsto> ''AUDIO''], calls = [hello_argv]\<rparr>"
  have m: "files st0 (cache_path lib0 cfg0 (JStr ''en-US-AvaNeural'') (JStr ''hello'')) = None"
    by (simp add: st0_simps)
  have r: "?run [''edge-tts'', ''--voice'', ''en-US-AvaNeural'', ''--text'', ''hello'',
                 ''--write-media'',
                 cache_path lib0 cfg0 (JStr ''en-US-AvaNeural'') (JStr ''hello'')] =
           \<lparr>outcome = Returned 0 [], media = Some ''AUDIO''\<rparr>"
    by (simp add: engine_def)
  have l: "str_nat (length ''AUDIO'') = ''5''" by (simp add: str_nat.simps digit_char_def)
  have k: "files ?st1 hello_path = Some ''AUDIO''" by simp
  have n: "outcome (?run [''edge-tts'', ''--voice'', ''en-US-AvaNeural'', ''--text'', ''hello'',
                          ''--write-media'',
                          cache_path lib0 cfg0 (JStr ''en-US-AvaNeural'') (JStr ''hello'')]) \<noteq>
           NotStarted"
    by (simp add: engine_def)
  note T = engine_writes_entry_in_place
    [of lib0 cfg0 hello "''en-US-AvaNeural''" "''hello''" st0 ?run]
  have 1: "calls (fst (do_POST lib0 cfg0 ?run st0 hello)) =
             calls st0 @ [[''edge-tts'', ''--voice'', ''en-US-AvaNeural'', ''--text'', ''hello'',
                           ''--write-media'', hello_path]]"
    using T hello_params m n by (simp add: hello_cache_path encode_def)
  have 2: "files (fst (do_POST lib0 cfg0 ?run st0 hello)) hello_path = Some ''AUDIO''"
    using T hello_params m n by (simp add: hello_cache_path encode_def engine_def)
  have 3: "snd (do_POST lib0 cfg0 ?run st0 hello) =
             Response 200 [(''Content-Type'', ''audio/mpeg''), (''Content-Length'', ''5'')]
               ''AUDIO''"
    using T hello_params m n r l by (simp add: encode_def)
  have 4: "files (fst (serve_forever lib0 cfg0 ?st1
                         [(engine TimeoutExpired (Some ''AU''), ''POST'', hello)])) hello_path =
           Some ''AUDIO''"
    using engine_writes_entry_in_place
      [of lib0 cfg0 hello "''en-US-AvaNeural''" "''hello''" ?st1 ?run hello_path "''AUDIO''"
          "[(engine TimeoutExpired (Some ''AU''), ''POST'', hello)]"] k
    by simp
  show ?thesis using hello_params m 1 2 3 k 4 by simp
qed

text \<open>
  The specification has the write go to a temporary place first, so that a reader
  never sees a partial entry. With the command writing in place, what a command killed
  at the timeout has written so far stays under the final path, and the next request
  is answered with it.
\<close>

theorem timed_out_write_is_visible:
  "fst (do_POST lib0 cfg0 (engine TimeoutExpired (Some ''AU'')) st0 hello) =
     \<lparr>files = [hello_path \<mapsto> ''AU''],
      calls = [[''edge-tts'', ''--voice'', ''en-US-AvaNeural'', ''--text'', ''hello'',
                ''--write-media'', hello_path]]\<rparr> \<and>
   do_POST lib0 cfg0 (engine (Returned 0 []) (Some ''AUDIO''))
     (fst (do_POST lib0 cfg0 (engine TimeoutExpired (Some ''AU'')) st0 hello)) hello =
     (\<lparr>files = [hello_path \<mapsto> ''AU''],
       calls = [[''edge-tts'', ''--voice'', ''en-US-AvaNeural'', ''--text'', ''hello'',
                 ''--write-media'', hello_path]]\<rparr>,
      Response 200 [(''Content-Type'', ''audio/mpeg''), (''Content-Length'', ''2'')] ''AU'')"
  by (simp add: hello_run speech_def format_value_def encode_def hello_cache_path Let_def engine_def
        st0_def edge_tts_argv_def serve_audio_def str_nat.simps digit_char_def)

end
